theory Spec2Isabelle
  imports Complex_Main "HOL-Library.Sublist"
begin

section \<open>Values of the host language\<close>

text \<open>
  A JavaScript string is a sequence of UTF-16 code units. The model keeps a code unit as a
  natural number and a string as a list of them, so that \<open>includes\<close> and \<open>===\<close> work on
  code units as they do in the runtime. \<open>str\<close> turns an ASCII literal into such a string.
\<close>

type_synonym js_string = "nat list"

definition str :: "string \<Rightarrow> js_string" where
  "str cs = map of_char cs"

text \<open>
  \<open>String.prototype.includes(q)\<close> with no start position: try every start position of the
  receiver, from the left, and compare \<open>q\<close> with the code units found there.
\<close>

fun starts_with :: "js_string \<Rightarrow> js_string \<Rightarrow> bool" where
  "starts_with s [] = True"
| "starts_with [] (c # q) = False"
| "starts_with (d # s) (c # q) = (d = c \<and> starts_with s q)"

fun js_includes :: "js_string \<Rightarrow> js_string \<Rightarrow> bool" where
  "js_includes [] q = starts_with [] q"
| "js_includes (d # s) q = (starts_with (d # s) q \<or> js_includes s q)"

text \<open>
  \<open>String.prototype.toLowerCase\<close> is the runtime's Unicode case mapping; the repository does
  not define it. The filter takes it as a parameter \<open>lower\<close>. On strings of ASCII code units
  the runtime's mapping is the one below: \<open>A\<close>..\<open>Z\<close> (65..90) move to \<open>a\<close>..\<open>z\<close>, every
  other ASCII code unit stays.
\<close>

definition ascii_lower_unit :: "nat \<Rightarrow> nat" where
  "ascii_lower_unit c = (if 65 \<le> c \<and> c \<le> 90 then c + 32 else c)"

definition ascii_toLowerCase :: "js_string \<Rightarrow> js_string" where
  "ascii_toLowerCase s = map ascii_lower_unit s"

text \<open>
  A JavaScript number is an IEEE double. The component only compares prices with the
  constants 100 and 500, which are doubles themselves, so a finite double is kept as the
  real number it denotes and the three special values are kept apart. \<open>js_lt\<close> is \<open><\<close> and
  \<open>js_ge\<close> is \<open>>=\<close>: both are false as soon as one side is NaN.
\<close>

datatype js_number = Finite real | PosInfinity | NegInfinity | NaN

fun js_lt :: "js_number \<Rightarrow> js_number \<Rightarrow> bool" where
  "js_lt NaN y = False"
| "js_lt x NaN = False"
| "js_lt (Finite a) (Finite b) = (a < b)"
| "js_lt PosInfinity y = False"
| "js_lt x NegInfinity = False"
| "js_lt NegInfinity y = True"
| "js_lt x PosInfinity = True"

fun js_ge :: "js_number \<Rightarrow> js_number \<Rightarrow> bool" where
  "js_ge NaN y = False"
| "js_ge x NaN = False"
| "js_ge x y = (\<not> js_lt x y)"

section \<open>Data model of InteractiveCarSelector.tsx\<close>

text \<open>
  The three interfaces. A field marked \<open>?\<close> in the source is an option. The fields \<open>id\<close>,
  \<open>name\<close> and \<open>name_ar\<close> occur in all three interfaces; a record field is a global name, so
  they carry the prefix of their interface (\<open>b_\<close>, \<open>m_\<close>, \<open>p_\<close>).
\<close>

record carBrand =
  b_id :: js_string
  b_name :: js_string
  b_name_ar :: "js_string option"
  logo_url :: "js_string option"

record carModel =
  m_id :: js_string
  m_name :: js_string
  m_name_ar :: "js_string option"
  brand_id :: js_string
  year_start :: "js_number option"
  year_end :: "js_number option"

record product =
  p_id :: js_string
  p_name :: js_string
  p_name_ar :: "js_string option"
  price :: js_number
  image :: "js_string option"
  sku :: "js_string option"

datatype selectorState = Collapsed | Brands | Models | Products

datatype priceFilter = All_prices | Low | Medium | High

text \<open>
  What the component reads from outside: the two lists of the store, the language of the
  translation hook, and the runtime's \<open>toLowerCase\<close>.
\<close>

record env =
  carBrands :: "carBrand list"
  carModels :: "carModel list"
  language :: js_string
  toLowerCase :: "js_string \<Rightarrow> js_string"

text \<open>
  The seven \<open>useState\<close> cells, and three logs for what leaves the component: the product
  requests that are in flight (by model id), the routes pushed to the router and the
  lines written with \<open>console.error\<close>.
\<close>

record state =
  selectorState :: selectorState
  selectedBrand :: "carBrand option"
  selectedModel :: "carModel option"
  products :: "product list"
  loadingProducts :: bool
  searchQuery :: js_string
  priceFilter :: priceFilter
  inflight :: "js_string list"
  routes :: "js_string list"
  console :: "js_string list"

definition initial :: state where
  "initial = \<lparr> selectorState = Collapsed, selectedBrand = None, selectedModel = None,
     products = [], loadingProducts = False, searchQuery = [], priceFilter = All_prices,
     inflight = [], routes = [], console = [] \<rparr>"

definition GRID_COLUMNS :: nat where
  "GRID_COLUMNS = 5"

definition GRID_ROWS :: nat where
  "GRID_ROWS = 2"

section \<open>Filtering\<close>

text \<open>
  The body of the callback given to \<open>products.filter\<close>. An optional chain \<open>x?.f()\<close> on an
  absent field is \<open>undefined\<close>, which \<open>||\<close> and \<open>&&\<close> read as false.
\<close>

definition field_includes :: "(js_string \<Rightarrow> js_string) \<Rightarrow> js_string option \<Rightarrow> js_string \<Rightarrow> bool" where
  "field_includes lower field q =
     (case field of None \<Rightarrow> False | Some v \<Rightarrow> js_includes (lower v) (lower q))"

definition matchesSearch :: "(js_string \<Rightarrow> js_string) \<Rightarrow> js_string \<Rightarrow> product \<Rightarrow> bool" where
  "matchesSearch lower q p =
     (q = [] \<or>
      js_includes (lower (p_name p)) (lower q) \<or>
      field_includes lower (p_name_ar p) q \<or>
      field_includes lower (sku p) q)"

definition matchesPrice :: "priceFilter \<Rightarrow> product \<Rightarrow> bool" where
  "matchesPrice f p =
     (if f = Low then js_lt (price p) (Finite 100)
      else if f = Medium then js_ge (price p) (Finite 100) \<and> js_lt (price p) (Finite 500)
      else if f = High then js_ge (price p) (Finite 500)
      else True)"

text \<open>
  The callback reads \<open>searchQuery\<close> and \<open>priceFilter\<close> from the enclosing render and assigns
  nothing. It is written in state-passing form, the state coming back as it went in, so
  that the loop of \<open>Array.prototype.filter\<close> can thread the state through its calls.
\<close>

definition filterCallback :: "env \<Rightarrow> state \<Rightarrow> product \<Rightarrow> bool \<times> state" where
  "filterCallback e s p =
     (matchesSearch (toLowerCase e) (searchQuery s) p \<and> matchesPrice (priceFilter s) p, s)"

text \<open>
  \<open>Array.prototype.filter\<close>: walk the receiver from index 0, call the callback on each
  element, append the element to a fresh array when the callback says so.
\<close>

fun array_filter :: "('s \<Rightarrow> 'a \<Rightarrow> bool \<times> 's) \<Rightarrow> 'a list \<Rightarrow> 's \<Rightarrow> 'a list \<times> 's" where
  "array_filter cb [] s = ([], s)"
| "array_filter cb (x # xs) s =
     (case cb s x of (keep, s1) \<Rightarrow>
        (case array_filter cb xs s1 of (kept, s2) \<Rightarrow>
           (if keep then x # kept else kept, s2)))"

definition computeFilteredProducts :: "env \<Rightarrow> state \<Rightarrow> product list \<times> state" where
  "computeFilteredProducts e s = array_filter (filterCallback e) (products s) s"

definition filteredProducts :: "env \<Rightarrow> state \<Rightarrow> product list" where
  "filteredProducts e s = fst (computeFilteredProducts e s)"

text \<open>The two lists shown in the grid.\<close>

definition displayBrands :: "env \<Rightarrow> carBrand list" where
  "displayBrands e = take (GRID_COLUMNS * GRID_ROWS) (carBrands e)"

definition filteredModels :: "env \<Rightarrow> state \<Rightarrow> carModel list" where
  "filteredModels e s =
     (case selectedBrand s of
        Some b \<Rightarrow> take (GRID_COLUMNS * GRID_ROWS) (filter (\<lambda>m. brand_id m = b_id b) (carModels e))
      | None \<Rightarrow> [])"

section \<open>Transition handlers\<close>

text \<open>
  Every \<open>setX(v)\<close> of a handler is an update of the field \<open>X\<close>; the setters of one handler
  write different cells, so their order does not matter. \<open>router.push(r)\<close> appends \<open>r\<close> to
  \<open>routes\<close>.
\<close>

definition router_push :: "js_string \<Rightarrow> state \<Rightarrow> state" where
  "router_push r s = s\<lparr>routes := routes s @ [r]\<rparr>"

text \<open>
  \<open>fetchProductsForModel\<close> is asynchronous. Up to its \<open>await\<close> it runs with the caller: the
  loading flag is set and the request leaves. The rest runs when the request settles,
  see \<open>fetchSettled\<close>.
\<close>

definition fetchProductsForModel :: "js_string \<Rightarrow> state \<Rightarrow> state" where
  "fetchProductsForModel modelId s =
     s\<lparr>loadingProducts := True, inflight := inflight s @ [modelId]\<rparr>"

text \<open>
  The answer of \<open>productApi.getAll\<close>: a response whose \<open>data\<close> and whose \<open>data.products\<close> may
  be absent, or a rejection carrying the error.
\<close>

record api_data =
  data_products :: "product list option"

record api_response =
  data :: "api_data option"

datatype fetch_result = Resolved api_response | Rejected js_string

definition response_products :: "api_response \<Rightarrow> product list" where
  "response_products r =
     (case data r of
        None \<Rightarrow> []
      | Some d \<Rightarrow> (case data_products d of None \<Rightarrow> [] | Some ps \<Rightarrow> ps))"

definition console_error :: "js_string \<Rightarrow> js_string \<Rightarrow> state \<Rightarrow> state" where
  "console_error msg err s = s\<lparr>console := console s @ [msg @ str '' '' @ err]\<rparr>"

definition fetchSettled :: "js_string \<Rightarrow> fetch_result \<Rightarrow> state \<Rightarrow> state" where
  "fetchSettled modelId r s =
     (let s1 = (case r of
                  Resolved resp \<Rightarrow> s\<lparr>products := response_products resp\<rparr>
                | Rejected err \<Rightarrow>
                    (console_error (str ''Error fetching products:'') err s)\<lparr>products := []\<rparr>)
      in s1\<lparr>loadingProducts := False, inflight := remove1 modelId (inflight s1)\<rparr>)"

definition handleAnchorPress :: "state \<Rightarrow> state" where
  "handleAnchorPress s =
     (if selectorState s = Collapsed then s\<lparr>selectorState := Brands\<rparr>
      else s\<lparr>selectorState := Collapsed, selectedBrand := None, selectedModel := None,
             products := [], searchQuery := [], priceFilter := All_prices\<rparr>)"

definition handleBrandSelect :: "carBrand \<Rightarrow> state \<Rightarrow> state" where
  "handleBrandSelect brand s = s\<lparr>selectedBrand := Some brand, selectorState := Models\<rparr>"

definition handleModelSelect :: "carModel \<Rightarrow> state \<Rightarrow> state" where
  "handleModelSelect model s =
     fetchProductsForModel (m_id model) (s\<lparr>selectedModel := Some model, selectorState := Products\<rparr>)"

definition handleBackToModels :: "state \<Rightarrow> state" where
  "handleBackToModels s = s\<lparr>selectorState := Models, selectedModel := None, products := []\<rparr>"

definition handleBackToBrands :: "state \<Rightarrow> state" where
  "handleBackToBrands s = s\<lparr>selectorState := Brands, selectedBrand := None, selectedModel := None\<rparr>"

definition handleProductPress :: "js_string \<Rightarrow> state \<Rightarrow> state" where
  "handleProductPress productId s =
     (router_push (str ''/product/'' @ productId) s)
       \<lparr>selectorState := Collapsed, selectedBrand := None, selectedModel := None, products := []\<rparr>"

text \<open>The two anonymous \<open>onPress\<close> functions: the ``View All'' tile and the panel's close button.\<close>

definition viewAllPress :: "state \<Rightarrow> state" where
  "viewAllPress s =
     (let s1 = (if selectorState s = Brands then router_push (str ''/car-brands'') s
                else (case selectedBrand s of
                        Some b \<Rightarrow> router_push (str ''/brand/'' @ b_id b) s
                      | None \<Rightarrow> s))
      in s1\<lparr>selectorState := Collapsed\<rparr>)"

definition closePress :: "state \<Rightarrow> state" where
  "closePress s = s\<lparr>selectorState := Collapsed\<rparr>"

definition setSearchQuery :: "js_string \<Rightarrow> state \<Rightarrow> state" where
  "setSearchQuery q s = s\<lparr>searchQuery := q\<rparr>"

definition setPriceFilter :: "priceFilter \<Rightarrow> state \<Rightarrow> state" where
  "setPriceFilter f s = s\<lparr>priceFilter := f\<rparr>"

section \<open>Render\<close>

text \<open>
  What the component returns, reduced to the elements that carry data or a handler:
  the icon of the anchor button, the breadcrumb (present unless collapsed, with one entry
  per selection), the hint, the tiles of the grid (present in \<open>brands\<close> and \<open>models\<close>, always
  followed by the ``View All'' tile), and the products panel with its title, its count
  and its body. The panel is mounted in every state; it is moved off the screen by an
  animation, not removed. \<open>None\<close> is the \<open>null\<close> of the early return.
\<close>

datatype grid_items = BrandItems "carBrand list" | ModelItems "carModel list"

datatype panel_body = LoadingContainer | EmptyContainer | ProductsGrid "product list"

record view =
  anchorIcon :: js_string
  breadcrumb :: "(carBrand option \<times> carModel option) option"
  hintShown :: bool
  gridItems :: "grid_items option"
  headerTitle :: js_string
  headerCount :: nat
  panelBody :: panel_body

definition getName :: "env \<Rightarrow> js_string \<Rightarrow> js_string option \<Rightarrow> js_string" where
  "getName e name name_ar =
     (if language e = str ''ar''
      then (case name_ar of None \<Rightarrow> name | Some a \<Rightarrow> if a = [] then name else a)
      else name)"

definition render :: "env \<Rightarrow> state \<Rightarrow> view option" where
  "render e s =
     (if length (carBrands e) = 0 then None
      else Some \<lparr>
        anchorIcon = (if selectorState s = Collapsed then str ''car-sports'' else str ''close''),
        breadcrumb = (if selectorState s \<noteq> Collapsed
                      then Some (selectedBrand s, selectedModel s) else None),
        hintShown = (selectorState s = Collapsed),
        gridItems = (if selectorState s = Brands then Some (BrandItems (displayBrands e))
                     else if selectorState s = Models then Some (ModelItems (filteredModels e s))
                     else None),
        headerTitle = (case selectedModel s of
                         Some m \<Rightarrow> getName e (m_name m) (m_name_ar m) | None \<Rightarrow> []),
        headerCount = length (filteredProducts e s),
        panelBody = (if loadingProducts s then LoadingContainer
                     else if length (filteredProducts e s) = 0 then EmptyContainer
                     else ProductsGrid (filteredProducts e s)) \<rparr>)"

section \<open>Events\<close>

text \<open>
  A handler runs only through the \<open>onPress\<close> (or \<open>onChangeText\<close>) of an element that the
  last render returned; a settled request runs the rest of \<open>fetchProductsForModel\<close>.
  \<open>enabled\<close> reads the rendered view for the first and the in-flight requests for the
  second. The elements of the products panel count as enabled in every state, since the
  panel stays mounted.
\<close>

datatype event =
    AnchorPress
  | BreadcrumbBrandPress
  | BreadcrumbModelPress
  | BrandTilePress carBrand
  | ModelTilePress carModel
  | ViewAllPress
  | PanelBackPress
  | PanelClosePress
  | SearchChangeText js_string
  | FilterChipPress priceFilter
  | ProductCardPress product
  | FetchSettled js_string fetch_result

fun enabled_in :: "view \<Rightarrow> event \<Rightarrow> bool" where
  "enabled_in v AnchorPress = True"
| "enabled_in v BreadcrumbBrandPress =
     (case breadcrumb v of Some (Some b, m) \<Rightarrow> True | _ \<Rightarrow> False)"
| "enabled_in v BreadcrumbModelPress =
     (case breadcrumb v of Some (b, Some m) \<Rightarrow> True | _ \<Rightarrow> False)"
| "enabled_in v (BrandTilePress b) =
     (case gridItems v of Some (BrandItems bs) \<Rightarrow> b \<in> set bs | _ \<Rightarrow> False)"
| "enabled_in v (ModelTilePress m) =
     (case gridItems v of Some (ModelItems ms) \<Rightarrow> m \<in> set ms | _ \<Rightarrow> False)"
| "enabled_in v ViewAllPress = (gridItems v \<noteq> None)"
| "enabled_in v PanelBackPress = True"
| "enabled_in v PanelClosePress = True"
| "enabled_in v (SearchChangeText q) = True"
| "enabled_in v (FilterChipPress f) = True"
| "enabled_in v (ProductCardPress p) =
     (case panelBody v of ProductsGrid ps \<Rightarrow> p \<in> set ps | _ \<Rightarrow> False)"
| "enabled_in v (FetchSettled modelId r) = False"

definition enabled :: "env \<Rightarrow> state \<Rightarrow> event \<Rightarrow> bool" where
  "enabled e s ev =
     (case ev of
        FetchSettled modelId r \<Rightarrow> modelId \<in> set (inflight s)
      | _ \<Rightarrow> (case render e s of None \<Rightarrow> False | Some v \<Rightarrow> enabled_in v ev))"

fun fire :: "event \<Rightarrow> state \<Rightarrow> state" where
  "fire AnchorPress s = handleAnchorPress s"
| "fire BreadcrumbBrandPress s = handleBackToBrands s"
| "fire BreadcrumbModelPress s = handleBackToModels s"
| "fire (BrandTilePress b) s = handleBrandSelect b s"
| "fire (ModelTilePress m) s = handleModelSelect m s"
| "fire ViewAllPress s = viewAllPress s"
| "fire PanelBackPress s = handleBackToModels s"
| "fire PanelClosePress s = closePress s"
| "fire (SearchChangeText q) s = setSearchQuery q s"
| "fire (FilterChipPress f) s = setPriceFilter f s"
| "fire (ProductCardPress p) s = handleProductPress (p_id p) s"
| "fire (FetchSettled modelId r) s = fetchSettled modelId r s"

text \<open>
  A run of the widget: each event comes with the environment of the render it was
  raised in (the store may change between events). \<open>None\<close> when an event of the list is
  not enabled where it stands.
\<close>

fun run :: "state \<Rightarrow> (env \<times> event) list \<Rightarrow> state option" where
  "run s [] = Some s"
| "run s ((e, ev) # rest) = (if enabled e s ev then run (fire ev s) rest else None)"

section \<open>Invariant of the selection\<close>

definition selection_ok :: "state \<Rightarrow> bool" where
  "selection_ok s =
     ((selectedModel s \<noteq> None \<longrightarrow> selectedBrand s \<noteq> None) \<and>
      (selectorState s = Products \<longrightarrow> selectedModel s \<noteq> None))"

section \<open>Example data\<close>

definition brand1 :: carBrand where
  "brand1 = \<lparr> b_id = str ''b1'', b_name = str ''Toyota'', b_name_ar = None, logo_url = None \<rparr>"

definition model1 :: carModel where
  "model1 = \<lparr> m_id = str ''M1'', m_name = str ''Corolla'', m_name_ar = None,
     brand_id = str ''b1'', year_start = None, year_end = None \<rparr>"

definition product1 :: product where
  "product1 = \<lparr> p_id = str ''p1'', p_name = str ''Oil filter'', p_name_ar = None,
     price = Finite 50, image = None, sku = None \<rparr>"

definition product_abc :: product where
  "product_abc = \<lparr> p_id = str ''p2'', p_name = str ''abc-123'', p_name_ar = None,
     price = Finite 100, image = None, sku = None \<rparr>"

definition product_500 :: product where
  "product_500 = \<lparr> p_id = str ''p3'', p_name = str ''Brake disc'', p_name_ar = None,
     price = Finite 500, image = None, sku = Some (str ''BD-500'') \<rparr>"

definition env1 :: env where
  "env1 = \<lparr> carBrands = [brand1], carModels = [model1], language = str ''en'',
     toLowerCase = ascii_toLowerCase \<rparr>"

definition env_no_brands :: env where
  "env_no_brands = \<lparr> carBrands = [], carModels = [model1], language = str ''en'',
     toLowerCase = ascii_toLowerCase \<rparr>"

text \<open>Twelve brands and twelve models of the first of them: more than the grid holds.\<close>

definition brand_no :: "nat \<Rightarrow> carBrand" where
  "brand_no n = \<lparr> b_id = [98, n], b_name = [66, n], b_name_ar = None, logo_url = None \<rparr>"

definition model_no :: "nat \<Rightarrow> carModel" where
  "model_no n = \<lparr> m_id = [109, n], m_name = [77, n], m_name_ar = None, brand_id = [98, 0],
     year_start = None, year_end = None \<rparr>"

definition env12 :: env where
  "env12 = \<lparr>
     carBrands = [brand_no 0, brand_no 1, brand_no 2, brand_no 3, brand_no 4, brand_no 5,
                  brand_no 6, brand_no 7, brand_no 8, brand_no 9, brand_no 10, brand_no 11],
     carModels = [model_no 0, model_no 1, model_no 2, model_no 3, model_no 4, model_no 5,
                  model_no 6, model_no 7, model_no 8, model_no 9, model_no 10, model_no 11],
     language = str ''en'', toLowerCase = ascii_toLowerCase \<rparr>"

text \<open>
  A session: open the selector, pick the brand, pick the model, the request answers with
  one product, type a search text, pick the price bracket below 100.
\<close>

definition browse :: "(env \<times> event) list" where
  "browse =
     [(env1, AnchorPress), (env1, BrandTilePress brand1), (env1, ModelTilePress model1),
      (env1, FetchSettled (str ''M1'')
               (Resolved \<lparr> data = Some \<lparr> data_products = Some [product1] \<rparr> \<rparr>)),
      (env1, SearchChangeText (str ''OIL'')), (env1, FilterChipPress Low)]"

definition browsed :: state where
  "browsed = \<lparr> selectorState = Products, selectedBrand = Some brand1,
     selectedModel = Some model1, products = [product1], loadingProducts = False,
     searchQuery = str ''OIL'', priceFilter = Low, inflight = [], routes = [], console = [] \<rparr>"

section \<open>Properties of the filter\<close>

lemma starts_with_prefix: "starts_with s q \<longleftrightarrow> prefix q s"
  by (induction s q rule: starts_with.induct) auto

lemma includes_sublist: "js_includes s q \<longleftrightarrow> sublist q s"
proof (induction s)
  case Nil
  show ?case by (cases q) simp_all
next
  case (Cons d s)
  then show ?case by (simp add: starts_with_prefix sublist_Cons_right)
qed

lemma array_filter_callback:
  "array_filter (filterCallback e) ps s =
     (filter (\<lambda>p. matchesSearch (toLowerCase e) (searchQuery s) p \<and> matchesPrice (priceFilter s) p) ps, s)"
  by (induction ps) (simp_all add: filterCallback_def)

lemma filteredProducts_filter:
  "filteredProducts e s =
     filter (\<lambda>p. matchesSearch (toLowerCase e) (searchQuery s) p \<and> matchesPrice (priceFilter s) p)
       (products s)"
  by (simp add: filteredProducts_def computeFilteredProducts_def array_filter_callback)

lemma array_filter_state: "snd (array_filter (filterCallback e) ps s) = s"
  by (simp add: array_filter_callback)

lemmas handler_defs =
  handleAnchorPress_def handleBrandSelect_def handleModelSelect_def handleBackToModels_def
  handleBackToBrands_def handleProductPress_def viewAllPress_def closePress_def
  setSearchQuery_def setPriceFilter_def fetchProductsForModel_def fetchSettled_def
  response_products_def console_error_def router_push_def

lemmas render_defs =
  enabled_def render_def displayBrands_def filteredModels_def GRID_COLUMNS_def GRID_ROWS_def
  filteredProducts_filter matchesSearch_def matchesPrice_def field_includes_def
  ascii_toLowerCase_def ascii_lower_unit_def str_def

lemmas session_defs =
  initial_def env1_def brand1_def model1_def product1_def

section \<open>Transitions into the collapsed state\<close>

lemma anchor_collapse_clears:
  assumes "selectorState s \<noteq> Collapsed"
  shows "selectorState (handleAnchorPress s) = Collapsed"
    and "selectedBrand (handleAnchorPress s) = None"
    and "selectedModel (handleAnchorPress s) = None"
    and "products (handleAnchorPress s) = []"
    and "searchQuery (handleAnchorPress s) = []"
    and "priceFilter (handleAnchorPress s) = All_prices"
  using assms by (simp_all add: handleAnchorPress_def)

lemma product_press_clears:
  shows "selectorState (handleProductPress pid s) = Collapsed"
    and "selectedBrand (handleProductPress pid s) = None"
    and "selectedModel (handleProductPress pid s) = None"
    and "products (handleProductPress pid s) = []"
    and "searchQuery (handleProductPress pid s) = searchQuery s"
    and "priceFilter (handleProductPress pid s) = priceFilter s"
  by (simp_all add: handleProductPress_def router_push_def)

lemma close_press_keeps: "closePress s = s\<lparr>selectorState := Collapsed\<rparr>"
  by (simp add: closePress_def)

lemma view_all_keeps:
  shows "selectorState (viewAllPress s) = Collapsed"
    and "selectedBrand (viewAllPress s) = selectedBrand s"
    and "selectedModel (viewAllPress s) = selectedModel s"
    and "products (viewAllPress s) = products s"
    and "searchQuery (viewAllPress s) = searchQuery s"
    and "priceFilter (viewAllPress s) = priceFilter s"
  by (simp_all add: viewAllPress_def router_push_def Let_def split: option.splits)

lemma run_browse: "run initial browse = Some browsed"
  by (simp add: browse_def browsed_def session_defs render_defs handler_defs)

text \<open>
  C1. The claim: every transition into \<open>collapsed\<close> leaves no brand, no model, no products,
  an empty search text and the price filter \<open>all\<close>. Only the anchor press does
  (\<open>anchor_collapse_clears\<close>). After the session \<open>browse\<close> the close button of the panel
  collapses the widget and keeps all five; opening the product clears brand, model and
  products and keeps the search text and the price filter; ``View All'' pressed in the
  model grid keeps the selected brand.
\<close>

theorem collapse_keeps_state:
  "run initial (browse @ [(env1, PanelClosePress)]) =
     Some \<lparr> selectorState = Collapsed, selectedBrand = Some brand1, selectedModel = Some model1,
       products = [product1], loadingProducts = False, searchQuery = str ''OIL'',
       priceFilter = Low, inflight = [], routes = [], console = [] \<rparr> \<and>
   run initial (browse @ [(env1, ProductCardPress product1)]) =
     Some \<lparr> selectorState = Collapsed, selectedBrand = None, selectedModel = None,
       products = [], loadingProducts = False, searchQuery = str ''OIL'',
       priceFilter = Low, inflight = [], routes = [str ''/product/p1''], console = [] \<rparr> \<and>
   run initial [(env1, AnchorPress), (env1, BrandTilePress brand1), (env1, ViewAllPress)] =
     Some \<lparr> selectorState = Collapsed, selectedBrand = Some brand1, selectedModel = None,
       products = [], loadingProducts = False, searchQuery = [],
       priceFilter = All_prices, inflight = [], routes = [str ''/brand/b1''], console = [] \<rparr>"
  by (simp add: browse_def session_defs render_defs handler_defs)

section \<open>The selection invariant\<close>

lemma model_tile_needs_brand:
  assumes "enabled e s (ModelTilePress m)"
  shows "selectedBrand s \<noteq> None"
proof
  assume "selectedBrand s = None"
  then have "filteredModels e s = []"
    by (simp add: filteredModels_def)
  with assms show False
    by (auto simp: enabled_def render_def split: if_splits)
qed

text \<open>
  The guard is the render's, not the handler's: \<open>handleModelSelect\<close> itself does not look
  at the selected brand.
\<close>

lemma model_select_unguarded:
  "selectedBrand (handleModelSelect m initial) = None \<and>
   selectedModel (handleModelSelect m initial) = Some m \<and>
   \<not> enabled e initial (ModelTilePress m)"
  by (simp add: handleModelSelect_def fetchProductsForModel_def initial_def enabled_def
        render_def)

lemma fire_selection_ok:
  assumes "selection_ok s" and "enabled e s ev"
  shows "selection_ok (fire ev s)"
proof (cases ev)
  case (ModelTilePress m)
  with assms(2) have "selectedBrand s \<noteq> None"
    using model_tile_needs_brand by blast
  with ModelTilePress show ?thesis
    by (simp add: selection_ok_def handleModelSelect_def fetchProductsForModel_def)
next
  case (FetchSettled modelId r)
  with assms(1) show ?thesis
    by (cases r) (simp_all add: selection_ok_def fetchSettled_def console_error_def Let_def)
next
  case ViewAllPress
  with assms show ?thesis
    by (auto simp: selection_ok_def viewAllPress_def router_push_def Let_def enabled_def
          render_def split: option.splits if_splits)
qed (use assms(1) in \<open>auto simp: selection_ok_def handler_defs\<close>)

lemma run_selection_ok:
  "selection_ok s \<Longrightarrow> run s tr = Some s' \<Longrightarrow> selection_ok s'"
proof (induction tr arbitrary: s)
  case Nil
  then show ?case by simp
next
  case (Cons step tr)
  obtain e ev where step: "step = (e, ev)" by (cases step)
  with Cons.prems(2) have en: "enabled e s ev" and rest: "run (fire ev s) tr = Some s'"
    by (simp_all split: if_splits)
  from Cons.prems(1) en have "selection_ok (fire ev s)"
    by (rule fire_selection_ok)
  with rest show ?case
    by (rule Cons.IH[rotated])
qed

text \<open>
  C2. In every state that a run of enabled events reaches from the initial state, a
  selected model comes with a selected brand, and the state \<open>products\<close> comes with a
  selected model.
\<close>

theorem reachable_selection:
  assumes "run initial tr = Some s"
  shows "(selectedModel s \<noteq> None \<longrightarrow> selectedBrand s \<noteq> None) \<and>
         (selectorState s = Products \<longrightarrow> selectedModel s \<noteq> None)"
proof -
  have "selection_ok initial"
    by (simp add: selection_ok_def initial_def)
  then have "selection_ok s"
    using assms by (rule run_selection_ok)
  then show ?thesis
    by (simp add: selection_ok_def)
qed

theorem reachable_selection_witness:
  "run initial browse = Some browsed \<and> selectorState browsed = Products \<and>
   selectedModel browsed = Some model1 \<and> selectedBrand browsed = Some brand1"
  using reachable_selection [OF run_browse] run_browse by (simp add: browsed_def)

section \<open>A failed product request\<close>

lemma model_select_issues_fetch:
  shows "loadingProducts (handleModelSelect m s) = True"
    and "selectorState (handleModelSelect m s) = Products"
    and "enabled e (handleModelSelect m s) (FetchSettled (m_id m) r)"
  by (simp_all add: handleModelSelect_def fetchProductsForModel_def enabled_def)

lemma fetch_rejected_logs:
  "console (fetchSettled modelId (Rejected err) s) =
     console s @ [str ''Error fetching products:'' @ str '' '' @ err]"
  by (simp add: fetchSettled_def console_error_def)

lemma render_rejected_as_empty:
  "render e (fetchSettled modelId (Rejected err) s) =
   render e (fetchSettled modelId (Resolved \<lparr> data = Some \<lparr> data_products = Some [] \<rparr> \<rparr>) s)"
  by (simp add: render_def filteredModels_def filteredProducts_filter fetchSettled_def
        console_error_def response_products_def)

text \<open>
  C3. When the request for the products of a model is rejected, the rest of
  \<open>fetchProductsForModel\<close> leaves the product list empty, hence the filtered list empty,
  and the loading flag false. Nothing tells the user of the error: the view rendered
  afterwards is the view of a request that answered with no products, with the
  ``no products'' body in the panel (the error only goes to the console,
  \<open>fetch_rejected_logs\<close>).
\<close>

theorem fetch_failure_empties:
  "products (fetchSettled modelId (Rejected err) s) = [] \<and>
   filteredProducts e (fetchSettled modelId (Rejected err) s) = [] \<and>
   loadingProducts (fetchSettled modelId (Rejected err) s) = False \<and>
   render e (fetchSettled modelId (Rejected err) s) =
     render e (fetchSettled modelId (Resolved \<lparr> data = Some \<lparr> data_products = Some [] \<rparr> \<rparr>) s) \<and>
   (carBrands e \<noteq> [] \<longrightarrow>
      map_option panelBody (render e (fetchSettled modelId (Rejected err) s)) = Some EmptyContainer)"
proof -
  let ?s' = "fetchSettled modelId (Rejected err) s"
  have p: "products ?s' = []" and l: "loadingProducts ?s' = False"
    by (simp_all add: fetchSettled_def console_error_def)
  have f: "filteredProducts e ?s' = []"
    by (simp add: filteredProducts_filter p)
  have b: "carBrands e \<noteq> [] \<longrightarrow> map_option panelBody (render e ?s') = Some EmptyContainer"
    by (simp add: render_def f l)
  from p f l b render_rejected_as_empty show ?thesis
    by blast
qed

theorem fetch_failure_empties_witness:
  "run initial [(env1, AnchorPress), (env1, BrandTilePress brand1), (env1, ModelTilePress model1),
                (env1, FetchSettled (str ''M1'') (Rejected (str ''Network Error'')))] =
     Some (fetchSettled (str ''M1'') (Rejected (str ''Network Error''))
             (handleModelSelect model1 (handleBrandSelect brand1 (handleAnchorPress initial)))) \<and>
   carBrands env1 \<noteq> [] \<and>
   products (fetchSettled (str ''M1'') (Rejected (str ''Network Error''))
             (handleModelSelect model1 (handleBrandSelect brand1 (handleAnchorPress initial)))) = [] \<and>
   filteredProducts env1 (fetchSettled (str ''M1'') (Rejected (str ''Network Error''))
             (handleModelSelect model1 (handleBrandSelect brand1 (handleAnchorPress initial)))) = [] \<and>
   loadingProducts (fetchSettled (str ''M1'') (Rejected (str ''Network Error''))
             (handleModelSelect model1 (handleBrandSelect brand1 (handleAnchorPress initial)))) = False \<and>
   map_option panelBody (render env1 (fetchSettled (str ''M1'') (Rejected (str ''Network Error''))
             (handleModelSelect model1 (handleBrandSelect brand1 (handleAnchorPress initial))))) =
     Some EmptyContainer"
proof -
  have r: "run initial [(env1, AnchorPress), (env1, BrandTilePress brand1),
                (env1, ModelTilePress model1),
                (env1, FetchSettled (str ''M1'') (Rejected (str ''Network Error'')))] =
     Some (fetchSettled (str ''M1'') (Rejected (str ''Network Error''))
             (handleModelSelect model1 (handleBrandSelect brand1 (handleAnchorPress initial))))"
    by (simp add: session_defs render_defs handler_defs)
  have c: "carBrands env1 \<noteq> []"
    by (simp add: env1_def)
  from r c fetch_failure_empties [of "str ''M1''" "str ''Network Error''"
      "handleModelSelect model1 (handleBrandSelect brand1 (handleAnchorPress initial))" env1]
  show ?thesis by blast
qed

section \<open>The price bracket\<close>

lemma price_all: "matchesPrice All_prices p"
  by (simp add: matchesPrice_def)

lemma price_finite:
  assumes "price p = Finite r"
  shows "matchesPrice Low p \<longleftrightarrow> r < 100"
    and "matchesPrice Medium p \<longleftrightarrow> 100 \<le> r \<and> r < 500"
    and "matchesPrice High p \<longleftrightarrow> 500 \<le> r"
  using assms by (auto simp: matchesPrice_def)

lemma price_finite_one_bracket:
  assumes "price p = Finite r"
  shows "(matchesPrice Low p \<and> \<not> matchesPrice Medium p \<and> \<not> matchesPrice High p) \<or>
         (\<not> matchesPrice Low p \<and> matchesPrice Medium p \<and> \<not> matchesPrice High p) \<or>
         (\<not> matchesPrice Low p \<and> \<not> matchesPrice Medium p \<and> matchesPrice High p)"
  using assms by (auto simp: matchesPrice_def)

lemma price_special:
  shows "price p = NaN \<Longrightarrow> \<not> matchesPrice Low p \<and> \<not> matchesPrice Medium p \<and> \<not> matchesPrice High p"
    and "price p = PosInfinity \<Longrightarrow> \<not> matchesPrice Low p \<and> \<not> matchesPrice Medium p \<and> matchesPrice High p"
    and "price p = NegInfinity \<Longrightarrow> matchesPrice Low p \<and> \<not> matchesPrice Medium p \<and> \<not> matchesPrice High p"
  by (simp_all add: matchesPrice_def)

text \<open>
  C4. The price predicate of the filter: bracket \<open>low\<close> holds exactly when the price is
  below 100, \<open>medium\<close> exactly when it is at least 100 and below 500, \<open>high\<close> exactly when it
  is at least 500, the comparisons being those of the language; for a finite price they
  are the comparisons of the numbers. A price of exactly 100 is \<open>medium\<close> and a price of
  exactly 500 is \<open>high\<close>.
\<close>

theorem price_bracket:
  "(matchesPrice Low p \<longleftrightarrow> js_lt (price p) (Finite 100)) \<and>
   (matchesPrice Medium p \<longleftrightarrow> js_ge (price p) (Finite 100) \<and> js_lt (price p) (Finite 500)) \<and>
   (matchesPrice High p \<longleftrightarrow> js_ge (price p) (Finite 500)) \<and>
   (\<forall>r. price p = Finite r \<longrightarrow>
      (matchesPrice Low p \<longleftrightarrow> r < 100) \<and>
      (matchesPrice Medium p \<longleftrightarrow> 100 \<le> r \<and> r < 500) \<and>
      (matchesPrice High p \<longleftrightarrow> 500 \<le> r)) \<and>
   (price p = Finite 100 \<longrightarrow>
      matchesPrice Medium p \<and> \<not> matchesPrice Low p \<and> \<not> matchesPrice High p) \<and>
   (price p = Finite 500 \<longrightarrow>
      matchesPrice High p \<and> \<not> matchesPrice Low p \<and> \<not> matchesPrice Medium p)"
  by (auto simp: matchesPrice_def)

theorem price_bracket_witness:
  "price product_abc = Finite 100 \<and> matchesPrice Medium product_abc \<and>
   \<not> matchesPrice Low product_abc \<and> \<not> matchesPrice High product_abc \<and>
   price product_500 = Finite 500 \<and> matchesPrice High product_500 \<and>
   \<not> matchesPrice Low product_500 \<and> \<not> matchesPrice Medium product_500"
proof -
  have a: "price product_abc = Finite 100" and b: "price product_500 = Finite 500"
    by (simp_all add: product_abc_def product_500_def)
  from a b price_bracket [of product_abc] price_bracket [of product_500]
  show ?thesis by blast
qed

section \<open>The search text\<close>

lemma field_includes_sublist:
  "field_includes lower field q \<longleftrightarrow> (\<exists>v. field = Some v \<and> sublist (lower q) (lower v))"
  by (cases field) (simp_all add: field_includes_def includes_sublist)

text \<open>
  C5. With a search text that is not empty, a product passes the search exactly when the
  lowercased text occurs as a contiguous part of the lowercased name, of the lowercased
  localized name if the product has one, or of the lowercased SKU if it has one. This
  holds for whatever case mapping the runtime applies.
\<close>

theorem search_substring:
  assumes "q \<noteq> []"
  shows "matchesSearch lower q p \<longleftrightarrow>
           sublist (lower q) (lower (p_name p)) \<or>
           (\<exists>n. p_name_ar p = Some n \<and> sublist (lower q) (lower n)) \<or>
           (\<exists>k. sku p = Some k \<and> sublist (lower q) (lower k))"
  using assms by (simp add: matchesSearch_def field_includes_sublist includes_sublist)

theorem search_substring_witness:
  "str ''ABC'' \<noteq> [] \<and> p_name product_abc = str ''abc-123'' \<and>
   matchesSearch ascii_toLowerCase (str ''ABC'') product_abc \<and>
   sublist (ascii_toLowerCase (str ''ABC'')) (ascii_toLowerCase (p_name product_abc))"
proof -
  have n: "str ''ABC'' \<noteq> []"
    by (simp add: str_def)
  have m: "matchesSearch ascii_toLowerCase (str ''ABC'') product_abc"
    by (simp add: matchesSearch_def field_includes_def product_abc_def str_def
          ascii_toLowerCase_def ascii_lower_unit_def)
  have "p_name_ar product_abc = None" and "sku product_abc = None"
    and "p_name product_abc = str ''abc-123''"
    by (simp_all add: product_abc_def)
  with n m search_substring [OF n, of ascii_toLowerCase product_abc]
  show ?thesis by simp
qed

section \<open>Render without brands\<close>

lemma render_some:
  "carBrands e \<noteq> [] \<Longrightarrow> \<exists>v. render e s = Some v"
  by (simp add: render_def)

text \<open>
  C6. With an empty brand list in the store the component returns \<open>null\<close>, whatever its
  state is. No event of the view is enabled then.
\<close>

theorem render_no_brands:
  assumes "carBrands e = []"
  shows "render e s = None"
  using assms by (simp add: render_def)

theorem render_no_brands_witness:
  "carBrands env_no_brands = [] \<and> render env_no_brands browsed = None \<and>
   render env_no_brands initial = None"
proof -
  have c: "carBrands env_no_brands = []"
    by (simp add: env_no_brands_def)
  from c render_no_brands [OF c, of browsed] render_no_brands [OF c, of initial]
  show ?thesis by simp
qed

section \<open>The grids\<close>

lemma grid_capacity: "GRID_COLUMNS * GRID_ROWS = 10"
  by (simp add: GRID_COLUMNS_def GRID_ROWS_def)

lemma rendered_grid:
  assumes "render e s = Some v"
  shows "gridItems v =
           (if selectorState s = Brands then Some (BrandItems (displayBrands e))
            else if selectorState s = Models then Some (ModelItems (filteredModels e s))
            else None)"
  using assms by (auto simp: render_def split: if_splits)

text \<open>
  C7. The brand grid shows the first ten brands of the store and so at most ten tiles.
  With a selected brand the model grid shows the first ten of the models whose
  \<open>brand_id\<close> is the id of that brand, at most ten tiles; with no selected brand it shows
  none. (The grid ends with one more tile, ``View All'', which is no brand and no model.)
\<close>

theorem grid_at_most_ten:
  "displayBrands e = take 10 (carBrands e) \<and> length (displayBrands e) \<le> 10 \<and>
   length (filteredModels e s) \<le> 10 \<and>
   (\<forall>b. selectedBrand s = Some b \<longrightarrow>
      filteredModels e s = take 10 (filter (\<lambda>m. brand_id m = b_id b) (carModels e))) \<and>
   (selectedBrand s = None \<longrightarrow> filteredModels e s = [])"
  by (simp add: displayBrands_def filteredModels_def grid_capacity split: option.splits)

theorem grid_at_most_ten_witness:
  "length (carBrands env12) = 12 \<and>
   displayBrands env12 =
     [brand_no 0, brand_no 1, brand_no 2, brand_no 3, brand_no 4,
      brand_no 5, brand_no 6, brand_no 7, brand_no 8, brand_no 9] \<and>
   selectedBrand (handleBrandSelect (brand_no 0) (handleAnchorPress initial)) = Some (brand_no 0) \<and>
   filteredModels env12 (handleBrandSelect (brand_no 0) (handleAnchorPress initial)) =
     [model_no 0, model_no 1, model_no 2, model_no 3, model_no 4,
      model_no 5, model_no 6, model_no 7, model_no 8, model_no 9] \<and>
   selectedBrand initial = None \<and> filteredModels env12 initial = []"
proof -
  let ?s = "handleBrandSelect (brand_no 0) (handleAnchorPress initial)"
  have sel: "selectedBrand ?s = Some (brand_no 0)" and none: "selectedBrand initial = None"
    by (simp_all add: handleBrandSelect_def initial_def)
  have len: "length (carBrands env12) = 12"
    by (simp add: env12_def)
  have tb: "take 10 (carBrands env12) =
     [brand_no 0, brand_no 1, brand_no 2, brand_no 3, brand_no 4,
      brand_no 5, brand_no 6, brand_no 7, brand_no 8, brand_no 9]"
    by (simp add: env12_def)
  have tm: "take 10 (filter (\<lambda>m. brand_id m = b_id (brand_no 0)) (carModels env12)) =
     [model_no 0, model_no 1, model_no 2, model_no 3, model_no 4,
      model_no 5, model_no 6, model_no 7, model_no 8, model_no 9]"
    by (simp add: env12_def brand_no_def model_no_def)
  from grid_at_most_ten [of env12 ?s] grid_at_most_ten [of env12 initial] sel none len tb tm
  show ?thesis by simp
qed

section \<open>The filtered list\<close>

text \<open>
  C8. Computing the filtered list returns the state it was given, the product list with
  it. The result is the products that pass both predicates, in the order and with the
  multiplicity they have in the product list: it is the product list restricted to the
  indices of the passing elements, a subsequence of it, and its members are exactly the
  members of the product list that pass both predicates.
\<close>

theorem filtered_products_frame:
  "snd (computeFilteredProducts e s) = s \<and>
   products (snd (computeFilteredProducts e s)) = products s \<and>
   filteredProducts e s =
     nths (products s)
       {i. i < length (products s) \<and>
           matchesSearch (toLowerCase e) (searchQuery s) (products s ! i) \<and>
           matchesPrice (priceFilter s) (products s ! i)} \<and>
   subseq (filteredProducts e s) (products s) \<and>
   set (filteredProducts e s) =
     {p. p \<in> set (products s) \<and> matchesSearch (toLowerCase e) (searchQuery s) p \<and>
         matchesPrice (priceFilter s) p}"
proof -
  have st: "snd (computeFilteredProducts e s) = s"
    by (simp add: computeFilteredProducts_def array_filter_state)
  have "filteredProducts e s =
     nths (products s)
       {i. i < length (products s) \<and>
           matchesSearch (toLowerCase e) (searchQuery s) (products s ! i) \<and>
           matchesPrice (priceFilter s) (products s ! i)}"
    unfolding filteredProducts_filter by (rule filter_eq_nths)
  moreover have "subseq (filteredProducts e s) (products s)"
    by (simp add: filteredProducts_filter)
  moreover have "set (filteredProducts e s) =
     {p. p \<in> set (products s) \<and> matchesSearch (toLowerCase e) (searchQuery s) p \<and>
         matchesPrice (priceFilter s) p}"
    by (auto simp: filteredProducts_filter)
  ultimately show ?thesis
    using st by simp
qed

theorem filtered_products_frame_witness:
  "snd (computeFilteredProducts env1
          (browsed\<lparr>products := [product_500, product1, product_abc, product1]\<rparr>)) =
     browsed\<lparr>products := [product_500, product1, product_abc, product1]\<rparr> \<and>
   filteredProducts env1 (browsed\<lparr>products := [product_500, product1, product_abc, product1]\<rparr>) =
     [product1, product1]"
proof -
  have "filteredProducts env1 (browsed\<lparr>products := [product_500, product1, product_abc, product1]\<rparr>) =
     [product1, product1]"
    by (simp add: browsed_def env1_def product1_def product_abc_def product_500_def render_defs)
  with filtered_products_frame [of env1 "browsed\<lparr>products := [product_500, product1, product_abc, product1]\<rparr>"]
  show ?thesis by simp
qed

section \<open>The filter with no search text and no price bracket\<close>

text \<open>
  C10. With an empty search text and the price filter \<open>all\<close> the filtered list is the
  product list.
\<close>

theorem filter_identity:
  assumes "searchQuery s = []" and "priceFilter s = All_prices"
  shows "filteredProducts e s = products s"
  using assms by (simp add: filteredProducts_filter matchesSearch_def matchesPrice_def)

theorem filter_identity_witness:
  "searchQuery ((handleAnchorPress browsed)\<lparr>products := [product_500, product1]\<rparr>) = [] \<and>
   priceFilter ((handleAnchorPress browsed)\<lparr>products := [product_500, product1]\<rparr>) = All_prices \<and>
   filteredProducts env1 ((handleAnchorPress browsed)\<lparr>products := [product_500, product1]\<rparr>) =
     [product_500, product1]"
proof -
  let ?s = "(handleAnchorPress browsed)\<lparr>products := [product_500, product1]\<rparr>"
  have q: "searchQuery ?s = []" and f: "priceFilter ?s = All_prices"
    and p: "products ?s = [product_500, product1]"
    by (simp_all add: handleAnchorPress_def browsed_def)
  from q f p filter_identity [OF q f, of env1] show ?thesis by simp
qed

end
